theory Spec2Isabelle
  imports Main "HOL-Library.Word"
begin

unbundle bit_operations_syntax

section \<open>Media stream device request broker\<close>

text \<open>
  Source: \<^verbatim>\<open>shell/browser/media/media_stream_devices_controller.cc\<close>.
  The enumerations below are declared by the host engine; listed are the values the
  controller names and a few of the others (\<open>NO_SERVICE\<close>, the display captures,
  \<open>PERMISSION_DENIED\<close>).
\<close>

datatype MediaStreamType =
    NO_SERVICE
  | DEVICE_AUDIO_CAPTURE
  | DEVICE_VIDEO_CAPTURE
  | GUM_TAB_AUDIO_CAPTURE
  | GUM_TAB_VIDEO_CAPTURE
  | GUM_DESKTOP_AUDIO_CAPTURE
  | GUM_DESKTOP_VIDEO_CAPTURE
  | DISPLAY_AUDIO_CAPTURE
  | DISPLAY_VIDEO_CAPTURE

datatype MediaStreamRequestType =
    MEDIA_DEVICE_ACCESS
  | MEDIA_DEVICE_UPDATE
  | MEDIA_GENERATE_STREAM
  | MEDIA_OPEN_DEVICE_PEPPER_ONLY

datatype MediaStreamRequestResult =
    OK
  | PERMISSION_DENIED
  | NO_HARDWARE
  | FAILED_DUE_TO_SHUTDOWN

text \<open>\<^verbatim>\<open>blink::MediaStreamDevice(type, id, name)\<close>.\<close>

record MediaStreamDevice =
  dev_type :: MediaStreamType
  dev_id :: string
  dev_name :: string

type_synonym MediaStreamDevices = "MediaStreamDevice list"

text \<open>The fields of \<^verbatim>\<open>content::MediaStreamRequest\<close> that the controller reads.\<close>

record MediaStreamRequest =
  render_process_id :: int
  render_frame_id :: int
  request_type :: MediaStreamRequestType
  audio_type :: MediaStreamType
  video_type :: MediaStreamType
  requested_audio_device_id :: string
  requested_video_device_id :: string

text \<open>\<^verbatim>\<open>content::DesktopMediaID\<close>: a capture target, built from a type and an id.\<close>

datatype DesktopMediaID_Type = TYPE_NONE | TYPE_SCREEN | TYPE_WINDOW | TYPE_WEB_CONTENTS

record DesktopMediaID =
  media_type :: DesktopMediaID_Type
  media_id :: int

definition kFullDesktopScreenId :: int where
  "kFullDesktopScreenId = - 1"

text \<open>
  \<^verbatim>\<open>MediaCaptureDevicesDispatcher\<close> is defined outside the controller's file; the
  controller only calls it. Its seven entry points are taken as parameters: a null device
  pointer is \<open>None\<close>, and \<open>GetDefaultDevices audio video devices\<close> returns the
  vector it was given with whatever it pushed onto it.
\<close>

record MediaCaptureDevicesDispatcher =
  GetAudioCaptureDevices :: MediaStreamDevices
  GetVideoCaptureDevices :: MediaStreamDevices
  GetRequestedAudioDevice :: "string \<Rightarrow> MediaStreamDevice option"
  GetRequestedVideoDevice :: "string \<Rightarrow> MediaStreamDevice option"
  GetFirstAvailableAudioDevice :: "MediaStreamDevice option"
  GetFirstAvailableVideoDevice :: "MediaStreamDevice option"
  GetDefaultDevices :: "bool \<Rightarrow> bool \<Rightarrow> MediaStreamDevices \<Rightarrow> MediaStreamDevices"

text \<open>
  A completion callback is a single-use token, named by a number. A controller's
  \<^verbatim>\<open>callback_\<close> is \<open>None\<close> when the \<^verbatim>\<open>OnceCallback\<close> is null (never bound, or moved
  from).
\<close>

type_synonym MediaResponseCallback = nat

text \<open>
  Modelled from the spec: \<^verbatim>\<open>api::Session::ChooseMediaDevice\<close> is defined outside the
  controller's file. The spec describes it as a per-browser-context collaborator that either
  accepts responsibility for eventually resolving the callback (ownership of the callback
  transfers, the call returns true) or declines (the call returns false and the callback
  stays with the controller). A session is that decision, per request.
\<close>

record Session =
  ChooseMediaDevice :: "MediaStreamRequest \<Rightarrow> bool"

text \<open>
  The host as the controller sees it: the device dispatcher singleton,
  \<^verbatim>\<open>RenderFrameHost::FromID\<close> followed by the frame's browser context and its session
  (\<open>None\<close> when the frame host is gone), and \<^verbatim>\<open>DesktopMediaID::Parse\<close> /
  \<^verbatim>\<open>DesktopMediaID::ToString\<close> of the host engine.
\<close>

record Host =
  dispatcher :: MediaCaptureDevicesDispatcher
  RenderFrameHost_FromID :: "int \<Rightarrow> int \<Rightarrow> Session option"
  DesktopMediaID_Parse :: "string \<Rightarrow> DesktopMediaID"
  DesktopMediaID_ToString :: "DesktopMediaID \<Rightarrow> string"

text \<open>
  One run of a callback: which callback, the devices and the result it was run with (the
  third argument is a null \<^verbatim>\<open>MediaStreamUI\<close> at every call site).
\<close>

record CallbackRun =
  run_callback :: MediaResponseCallback
  run_devices :: MediaStreamDevices
  run_result :: MediaStreamRequestResult

text \<open>
  What is observable outside the controller: the callback runs so far, in order, and the
  callbacks that were moved into a session's chooser.
\<close>

record World =
  invocations :: "CallbackRun list"
  handed_over :: "MediaResponseCallback list"

text \<open>
  Fatal outcomes. Modelled from the spec: \<^verbatim>\<open>NOTREACHED()\<close> is a fatal assertion
  (the update-type request is "treated as unreachable/fatal"). Running a null
  \<^verbatim>\<open>OnceCallback\<close> also ends the process.
\<close>

datatype fatal = NOTREACHED | NullCallbackRun

text \<open>
  The members of the controller; \<open>m_request\<close> stands for the member \<^verbatim>\<open>request_\<close>,
  \<open>m_callback\<close> for \<^verbatim>\<open>callback_\<close>, and so on.
\<close>

record MediaStreamDevicesController =
  m_request :: MediaStreamRequest
  m_callback :: "MediaResponseCallback option"
  m_microphone_requested :: bool
  m_webcam_requested :: bool

type_synonym controller_state = "MediaStreamDevicesController \<times> World"

definition HasAnyAvailableDevice :: "Host \<Rightarrow> bool" where
  "HasAnyAvailableDevice host =
     (let audio_devices = GetAudioCaptureDevices (dispatcher host);
          video_devices = GetVideoCaptureDevices (dispatcher host)
      in \<not> (audio_devices = [] \<and> video_devices = []))"

text \<open>The constructor.\<close>

definition MediaStreamDevicesController_new ::
  "MediaStreamRequest \<Rightarrow> MediaResponseCallback \<Rightarrow> MediaStreamDevicesController" where
  "MediaStreamDevicesController_new request callback =
     \<lparr> m_request = request,
       m_callback = Some callback,
       m_microphone_requested =
         (audio_type request = DEVICE_AUDIO_CAPTURE \<or>
          request_type request = MEDIA_OPEN_DEVICE_PEPPER_ONLY),
       m_webcam_requested =
         (video_type request = DEVICE_VIDEO_CAPTURE \<or>
          request_type request = MEDIA_OPEN_DEVICE_PEPPER_ONLY) \<rparr>"

text \<open>\<^verbatim>\<open>std::move(callback_).Run(devices, result, nullptr)\<close>.\<close>

definition Run :: "MediaStreamDevices \<Rightarrow> MediaStreamRequestResult \<Rightarrow> controller_state
    \<Rightarrow> fatal + controller_state" where
  "Run devices result s =
     (case s of (c, w) \<Rightarrow>
        (case m_callback c of
           None \<Rightarrow> Inl NullCallbackRun
         | Some cb \<Rightarrow>
             Inr (c\<lparr>m_callback := None\<rparr>,
                  w\<lparr>invocations := invocations w @
                     [\<lparr>run_callback = cb, run_devices = devices, run_result = result\<rparr>]\<rparr>)))"

text \<open>The destructor: the controller is gone afterwards, the world remains.\<close>

definition destructor :: "controller_state \<Rightarrow> fatal + World" where
  "destructor s =
     (case s of (c, w) \<Rightarrow>
        if m_callback c \<noteq> None
        then (case Run [] FAILED_DUE_TO_SHUTDOWN (c, w) of
                Inl e \<Rightarrow> Inl e
              | Inr (c', w') \<Rightarrow> Inr w')
        else Inr w)"

definition push_back :: "'a list \<Rightarrow> 'a \<Rightarrow> 'a list" where
  "push_back xs x = xs @ [x]"

text \<open>The body of the \<^verbatim>\<open>MEDIA_OPEN_DEVICE_PEPPER_ONLY\<close> case of \<open>Accept\<close>.\<close>

definition open_device_pepper_only :: "Host \<Rightarrow> MediaStreamRequest \<Rightarrow> MediaStreamDevices
    \<Rightarrow> MediaStreamDevices" where
  "open_device_pepper_only host req devices =
     (let d = dispatcher host;
          device =
            (if audio_type req = DEVICE_AUDIO_CAPTURE then
               (case GetRequestedAudioDevice d (requested_audio_device_id req) of
                  None \<Rightarrow> GetFirstAvailableAudioDevice d
                | Some dev \<Rightarrow> Some dev)
             else if video_type req = DEVICE_VIDEO_CAPTURE then
               (case GetRequestedVideoDevice d (requested_video_device_id req) of
                  None \<Rightarrow> GetFirstAvailableVideoDevice d
                | Some dev \<Rightarrow> Some dev)
             else None)
      in case device of None \<Rightarrow> devices | Some dev \<Rightarrow> push_back devices dev)"

text \<open>The body of the \<^verbatim>\<open>MEDIA_GENERATE_STREAM\<close> case of \<open>Accept\<close>.\<close>

definition generate_stream :: "Host \<Rightarrow> MediaStreamDevicesController \<Rightarrow> MediaStreamDevices
    \<Rightarrow> MediaStreamDevices" where
  "generate_stream host c devices0 =
     (let d = dispatcher host;
          req = m_request c;
          needs_audio_device0 = m_microphone_requested c;
          needs_video_device0 = m_webcam_requested c;
          (devices1, needs_audio_device) =
            (if requested_audio_device_id req \<noteq> [] then
               (case GetRequestedAudioDevice d (requested_audio_device_id req) of
                  Some audio_device \<Rightarrow> (push_back devices0 audio_device, False)
                | None \<Rightarrow> (devices0, needs_audio_device0))
             else (devices0, needs_audio_device0));
          (devices2, needs_video_device) =
            (if requested_video_device_id req \<noteq> [] then
               (case GetRequestedVideoDevice d (requested_video_device_id req) of
                  Some video_device \<Rightarrow> (push_back devices1 video_device, False)
                | None \<Rightarrow> (devices1, needs_video_device0))
             else (devices1, needs_video_device0))
      in if needs_audio_device \<or> needs_video_device
         then GetDefaultDevices d needs_audio_device needs_video_device devices2
         else devices2)"

text \<open>
  The first half of \<open>Accept\<close> ("get the default devices for the request"): the
  \<open>devices\<close> vector as it stands when the callback is run, or the fatal assertion of the
  update-type case.
\<close>

definition accept_devices :: "Host \<Rightarrow> MediaStreamDevicesController \<Rightarrow> fatal + MediaStreamDevices" where
  "accept_devices host c =
     (if m_microphone_requested c \<or> m_webcam_requested c then
        (case request_type (m_request c) of
           MEDIA_OPEN_DEVICE_PEPPER_ONLY \<Rightarrow> Inr (open_device_pepper_only host (m_request c) [])
         | MEDIA_GENERATE_STREAM \<Rightarrow> Inr (generate_stream host c [])
         | MEDIA_DEVICE_ACCESS \<Rightarrow>
             Inr (GetDefaultDevices (dispatcher host)
                    (m_microphone_requested c) (m_webcam_requested c) [])
         | MEDIA_DEVICE_UPDATE \<Rightarrow> Inl NOTREACHED)
      else Inr [])"

definition Accept :: "Host \<Rightarrow> controller_state \<Rightarrow> fatal + controller_state" where
  "Accept host s =
     (case s of (c, w) \<Rightarrow>
        (case accept_devices host c of
           Inl e \<Rightarrow> Inl e
         | Inr devices \<Rightarrow> Run devices OK (c, w)))"

definition Deny :: "MediaStreamRequestResult \<Rightarrow> controller_state \<Rightarrow> fatal + controller_state" where
  "Deny result s = Run [] result s"

definition emplace_back :: "MediaStreamDevices \<Rightarrow> MediaStreamType \<Rightarrow> string \<Rightarrow> string
    \<Rightarrow> MediaStreamDevices" where
  "emplace_back devices t i n = devices @ [\<lparr>dev_type = t, dev_id = i, dev_name = n\<rparr>]"

text \<open>The target of a desktop-video request (the \<open>screen_id\<close> local of the source).\<close>

definition screen_id :: "Host \<Rightarrow> MediaStreamRequest \<Rightarrow> DesktopMediaID" where
  "screen_id host req =
     (if requested_video_device_id req = []
      then \<lparr>media_type = TYPE_SCREEN, media_id = - 1\<rparr>
      else DesktopMediaID_Parse host (requested_video_device_id req))"

definition user_media_devices :: "Host \<Rightarrow> MediaStreamRequest \<Rightarrow> MediaStreamDevices" where
  "user_media_devices host req =
     (let devices0 = [];
          devices1 = (if audio_type req = GUM_TAB_AUDIO_CAPTURE
                      then emplace_back devices0 GUM_TAB_AUDIO_CAPTURE '''' ''''
                      else devices0);
          devices2 = (if video_type req = GUM_TAB_VIDEO_CAPTURE
                      then emplace_back devices1 GUM_TAB_VIDEO_CAPTURE '''' ''''
                      else devices1);
          devices3 = (if audio_type req = GUM_DESKTOP_AUDIO_CAPTURE
                      then emplace_back devices2 GUM_DESKTOP_AUDIO_CAPTURE
                             ''loopback'' ''System Audio''
                      else devices2)
      in if video_type req = GUM_DESKTOP_VIDEO_CAPTURE
         then emplace_back devices3 GUM_DESKTOP_VIDEO_CAPTURE
                (DesktopMediaID_ToString host (screen_id host req)) ''Screen''
         else devices3)"

definition HandleUserMediaRequest :: "Host \<Rightarrow> controller_state \<Rightarrow> fatal + controller_state" where
  "HandleUserMediaRequest host s =
     (case s of (c, w) \<Rightarrow>
        (let devices = user_media_devices host (m_request c)
         in Run devices (if devices = [] then NO_HARDWARE else OK) (c, w)))"

text \<open>The condition of the first \<^verbatim>\<open>if\<close> of \<open>TakeAction\<close>.\<close>

definition is_tab_or_desktop_capture :: "MediaStreamRequest \<Rightarrow> bool" where
  "is_tab_or_desktop_capture req =
     (audio_type req = GUM_TAB_AUDIO_CAPTURE \<or>
      video_type req = GUM_TAB_VIDEO_CAPTURE \<or>
      audio_type req = GUM_DESKTOP_AUDIO_CAPTURE \<or>
      video_type req = GUM_DESKTOP_VIDEO_CAPTURE)"

text \<open>
  \<^verbatim>\<open>session->ChooseMediaDevice(request_, std::move(callback_))\<close>: when the session
  accepts, the callback leaves the controller and is recorded as handed over.
\<close>

definition move_callback_to_session :: "controller_state \<Rightarrow> controller_state" where
  "move_callback_to_session s =
     (case s of (c, w) \<Rightarrow>
        (c\<lparr>m_callback := None\<rparr>,
         w\<lparr>handed_over := handed_over w @
            (case m_callback c of None \<Rightarrow> [] | Some cb \<Rightarrow> [cb])\<rparr>))"

definition TakeAction :: "Host \<Rightarrow> controller_state \<Rightarrow> fatal + controller_state" where
  "TakeAction host s =
     (case s of (c, w) \<Rightarrow>
        if is_tab_or_desktop_capture (m_request c) then HandleUserMediaRequest host (c, w)
        else
          (case RenderFrameHost_FromID host (render_process_id (m_request c))
                  (render_frame_id (m_request c)) of
             None \<Rightarrow> Inr (c, w)
           | Some session \<Rightarrow>
               if ChooseMediaDevice session (m_request c)
               then Inr (move_callback_to_session (c, w))
               else if HasAnyAvailableDevice host then Accept host (c, w)
               else Deny NO_HARDWARE (c, w)))"

text \<open>
  The life of one controller: it is constructed for a request and its callback,
  \<open>TakeAction\<close> is invoked once, and it is destroyed.
\<close>

definition handle_request :: "Host \<Rightarrow> MediaStreamRequest \<Rightarrow> MediaResponseCallback \<Rightarrow> World
    \<Rightarrow> fatal + World" where
  "handle_request host request callback w =
     (case TakeAction host (MediaStreamDevicesController_new request callback, w) of
        Inl e \<Rightarrow> Inl e
      | Inr s \<Rightarrow> destructor s)"

text \<open>
  The delegation path of \<open>TakeAction\<close>, as a predicate on the request: not a tab or
  desktop capture, the frame host exists, and its session takes the callback.
\<close>

definition delegates :: "Host \<Rightarrow> MediaStreamRequest \<Rightarrow> bool" where
  "delegates host req =
     (\<not> is_tab_or_desktop_capture req \<and>
      (case RenderFrameHost_FromID host (render_process_id req) (render_frame_id req) of
         None \<Rightarrow> False
       | Some session \<Rightarrow> ChooseMediaDevice session req))"

text \<open>The world after one more run of callback \<open>cb\<close>.\<close>

definition fired :: "MediaResponseCallback \<Rightarrow> MediaStreamDevices \<Rightarrow> MediaStreamRequestResult
    \<Rightarrow> World \<Rightarrow> World" where
  "fired cb devices result w =
     w\<lparr>invocations := invocations w @
        [\<lparr>run_callback = cb, run_devices = devices, run_result = result\<rparr>]\<rparr>"

text \<open>The runs that a step added to the world \<open>w\<close> it started from.\<close>

definition new_runs :: "World \<Rightarrow> World \<Rightarrow> CallbackRun list" where
  "new_runs w w' = drop (length (invocations w)) (invocations w')"

subsection \<open>A concrete host\<close>

text \<open>
  Modelled from the spec: a dispatcher over the host's two device lists (the dispatcher's
  own code lies outside the controller's file). A requested id is looked up in the list of
  its kind, "first available" is the head of that list, and the default devices are the
  first available one of each kind asked for, audio first.
\<close>

definition first_available :: "MediaStreamDevices \<Rightarrow> MediaStreamDevice option" where
  "first_available devices = (case devices of [] \<Rightarrow> None | d # _ \<Rightarrow> Some d)"

definition device_list_dispatcher :: "MediaStreamDevices \<Rightarrow> MediaStreamDevices
    \<Rightarrow> MediaCaptureDevicesDispatcher" where
  "device_list_dispatcher audio video =
     \<lparr> GetAudioCaptureDevices = audio,
       GetVideoCaptureDevices = video,
       GetRequestedAudioDevice = (\<lambda>i. find (\<lambda>d. dev_id d = i) audio),
       GetRequestedVideoDevice = (\<lambda>i. find (\<lambda>d. dev_id d = i) video),
       GetFirstAvailableAudioDevice = first_available audio,
       GetFirstAvailableVideoDevice = first_available video,
       GetDefaultDevices = (\<lambda>a v devices.
          devices
          @ (if a then (case first_available audio of None \<Rightarrow> [] | Some d \<Rightarrow> [d]) else [])
          @ (if v then (case first_available video of None \<Rightarrow> [] | Some d \<Rightarrow> [d]) else [])) \<rparr>"

text \<open>Example devices, sessions, hosts and requests, for evaluating the model.\<close>

definition mic1 :: MediaStreamDevice where
  "mic1 = \<lparr>dev_type = DEVICE_AUDIO_CAPTURE, dev_id = ''mic-1'', dev_name = ''Microphone''\<rparr>"

definition mic2 :: MediaStreamDevice where
  "mic2 = \<lparr>dev_type = DEVICE_AUDIO_CAPTURE, dev_id = ''mic-2'', dev_name = ''Headset''\<rparr>"

definition cam1 :: MediaStreamDevice where
  "cam1 = \<lparr>dev_type = DEVICE_VIDEO_CAPTURE, dev_id = ''cam-1'', dev_name = ''Camera''\<rparr>"

definition cam2 :: MediaStreamDevice where
  "cam2 = \<lparr>dev_type = DEVICE_VIDEO_CAPTURE, dev_id = ''cam-2'', dev_name = ''Capture card''\<rparr>"

definition declining_session :: Session where
  "declining_session = \<lparr>ChooseMediaDevice = (\<lambda>_. False)\<rparr>"

definition accepting_session :: Session where
  "accepting_session = \<lparr>ChooseMediaDevice = (\<lambda>_. True)\<rparr>"

text \<open>
  In the example hosts frame (1, 1) belongs to a session that declines, frame (2, 1) to one
  that accepts, and no other frame exists. A desktop media id is written out as its type
  and its number, and every non-empty capture-target string parses to window 7.
\<close>

definition example_frames :: "int \<Rightarrow> int \<Rightarrow> Session option" where
  "example_frames pid fid =
     (if pid = 1 \<and> fid = 1 then Some declining_session
      else if pid = 2 \<and> fid = 1 then Some accepting_session
      else None)"

definition example_ToString :: "DesktopMediaID \<Rightarrow> string" where
  "example_ToString m =
     (case media_type m of
        TYPE_SCREEN \<Rightarrow> ''screen:''
      | TYPE_WINDOW \<Rightarrow> ''window:''
      | TYPE_WEB_CONTENTS \<Rightarrow> ''web-contents-media-stream://''
      | TYPE_NONE \<Rightarrow> [])
     @ (if media_id m = - 1 then ''-1'' else if media_id m = 7 then ''7'' else ''0'')"

definition example_host :: "MediaStreamDevices \<Rightarrow> MediaStreamDevices \<Rightarrow> Host" where
  "example_host audio video =
     \<lparr> dispatcher = device_list_dispatcher audio video,
       RenderFrameHost_FromID = example_frames,
       DesktopMediaID_Parse = (\<lambda>_. \<lparr>media_type = TYPE_WINDOW, media_id = 7\<rparr>),
       DesktopMediaID_ToString = example_ToString \<rparr>"

definition example_request :: "int \<Rightarrow> MediaStreamRequestType \<Rightarrow> MediaStreamType
    \<Rightarrow> MediaStreamType \<Rightarrow> string \<Rightarrow> string \<Rightarrow> MediaStreamRequest" where
  "example_request pid rt a v aid vid =
     \<lparr> render_process_id = pid, render_frame_id = 1, request_type = rt,
       audio_type = a, video_type = v,
       requested_audio_device_id = aid, requested_video_device_id = vid \<rparr>"

definition empty_world :: World where
  "empty_world = \<lparr>invocations = [], handed_over = []\<rparr>"

text \<open>A microphone-only request from the frame whose session declines.\<close>

definition audio_only_request :: MediaStreamRequest where
  "audio_only_request =
     example_request 1 MEDIA_GENERATE_STREAM DEVICE_AUDIO_CAPTURE NO_SERVICE [] []"

section \<open>Embedder preload hook of the JavaScript environment\<close>

text \<open>
  Source: the patch "src: preload function for Environment". A
  \<^verbatim>\<open>v8::Local<v8::Value>\<close> is modelled as far as the checks of
  \<open>RunEmbedderPreload\<close> tell values apart; a function is an object too.
\<close>

datatype Value = Object string | Function string | Undefined

fun IsObject :: "Value \<Rightarrow> bool" where
  "IsObject (Object _) = True"
| "IsObject (Function _) = True"
| "IsObject Undefined = False"

fun IsFunction :: "Value \<Rightarrow> bool" where
  "IsFunction (Function _) = True"
| "IsFunction _ = False"

text \<open>
  \<^verbatim>\<open>EmbedderPreloadCallback\<close> is a \<^verbatim>\<open>std::function\<close>: empty (\<open>None\<close>) or a
  hook, named here by a string. Calling a hook is recorded in the environment's log
  together with the two values it was given.
\<close>

type_synonym EmbedderPreloadCallback = "string option"

datatype env_event =
    InitializeLibuv
  | InitializeDiagnostics
  | EmbedderPreloadCalled string Value Value

datatype StartExecutionCallback = NoCallback | RunMainScript string

datatype node_failure = AssertionError | TypeError | CHECK_failed

text \<open>
  The environment: the member \<^verbatim>\<open>embedder_preload_\<close>, the two flags that
  \<^verbatim>\<open>hasStartedUserCJSExecution()\<close> and \<^verbatim>\<open>hasStartedUserESMExecution()\<close> read, and the
  log of what ran in it.
\<close>

record Environment =
  m_embedder_preload :: EmbedderPreloadCallback
  hasStartedUserCJSExecution :: bool
  hasStartedUserESMExecution :: bool
  env_log :: "env_event list"

definition embedder_preload :: "Environment \<Rightarrow> EmbedderPreloadCallback" where
  "embedder_preload env = m_embedder_preload env"

definition set_embedder_preload :: "EmbedderPreloadCallback \<Rightarrow> Environment \<Rightarrow> Environment" where
  "set_embedder_preload fn env = env\<lparr>m_embedder_preload := fn\<rparr>"

text \<open>The part of the embedder options object that the patch adds.\<close>

record EmbedderOptions =
  hasEmbedderPreload :: bool

text \<open>
  \<open>GetEmbedderOptions\<close>: when \<^verbatim>\<open>ret->Set(...)\<close> yields nothing the function returns
  early and no object reaches the caller; \<open>set_ok\<close> says whether the \<^verbatim>\<open>Set\<close> calls
  succeed.
\<close>

definition GetEmbedderOptions :: "bool \<Rightarrow> Environment \<Rightarrow> EmbedderOptions option" where
  "GetEmbedderOptions set_ok env =
     (if \<not> set_ok then None
      else Some \<lparr>hasEmbedderPreload = (embedder_preload env \<noteq> None)\<rparr>)"

definition RunEmbedderPreload :: "Environment \<Rightarrow> Value list \<Rightarrow> node_failure + Environment" where
  "RunEmbedderPreload env args =
     (case embedder_preload env of
        None \<Rightarrow> Inl CHECK_failed
      | Some hook \<Rightarrow>
          if length args \<noteq> 2 then Inl CHECK_failed
          else
            (let process_obj = args ! 0; require_fn = args ! 1
             in if \<not> IsObject process_obj then Inl CHECK_failed
                else if \<not> IsFunction require_fn then Inl CHECK_failed
                else Inr (env\<lparr>env_log := env_log env @
                            [EmbedderPreloadCalled hook process_obj require_fn]\<rparr>)))"

text \<open>The \<^verbatim>\<open>process\<close> object and the internal \<^verbatim>\<open>require\<close> of \<^verbatim>\<open>pre_execution.js\<close>.\<close>

definition process :: Value where
  "process = Object ''process''"

definition require :: Value where
  "require = Function ''require''"

definition runEmbedderPreload :: "Environment \<Rightarrow> node_failure + Environment" where
  "runEmbedderPreload env = RunEmbedderPreload env [process, require]"

text \<open>
  \<open>setupUserModules\<close> up to and including the hook. What the function does after it
  (enabling preload modules, then the user module loaders) lies outside the patch and is the
  parameter \<open>rest\<close>. Reading \<open>hasEmbedderPreload\<close> off a missing options object is a
  \<open>TypeError\<close>.
\<close>

definition setupUserModules :: "bool \<Rightarrow> (Environment \<Rightarrow> node_failure + Environment)
    \<Rightarrow> Environment \<Rightarrow> node_failure + Environment" where
  "setupUserModules set_ok rest env =
     (if hasStartedUserCJSExecution env then Inl AssertionError
      else if hasStartedUserESMExecution env then Inl AssertionError
      else
        (case GetEmbedderOptions set_ok env of
           None \<Rightarrow> Inl TypeError
         | Some options \<Rightarrow>
             if hasEmbedderPreload options
             then (case runEmbedderPreload env of
                     Inl e \<Rightarrow> Inl e
                   | Inr env' \<Rightarrow> rest env')
             else rest env))"

text \<open>
  \<open>LoadEnvironment(env, cb, preload)\<close>. \<open>StartExecution\<close> is the runtime's own and is a
  parameter; the two initialisation calls are recorded in the log.
\<close>

definition LoadEnvironment ::
  "(Environment \<Rightarrow> StartExecutionCallback \<Rightarrow> node_failure + Environment)
    \<Rightarrow> Environment \<Rightarrow> StartExecutionCallback \<Rightarrow> EmbedderPreloadCallback
    \<Rightarrow> node_failure + Environment" where
  "LoadEnvironment StartExecution env cb preload =
     (let env1 = env\<lparr>env_log := env_log env @ [InitializeLibuv]\<rparr>;
          env2 = env1\<lparr>env_log := env_log env1 @ [InitializeDiagnostics]\<rparr>;
          env3 = (if preload \<noteq> None then set_embedder_preload preload env2 else env2)
      in StartExecution env3 cb)"

text \<open>The overload that takes the main script's source.\<close>

definition LoadEnvironment_source ::
  "(Environment \<Rightarrow> StartExecutionCallback \<Rightarrow> node_failure + Environment)
    \<Rightarrow> Environment \<Rightarrow> string \<Rightarrow> EmbedderPreloadCallback
    \<Rightarrow> node_failure + Environment" where
  "LoadEnvironment_source StartExecution env main_script_source_utf8 preload =
     LoadEnvironment StartExecution env (RunMainScript main_script_source_utf8) preload"

text \<open>
  A worker keeps a copy of the creating environment's hook and moves it into its own
  environment when it runs.
\<close>

record Worker =
  worker_embedder_preload :: EmbedderPreloadCallback

definition Worker_new :: "Environment \<Rightarrow> Worker" where
  "Worker_new env = \<lparr>worker_embedder_preload = embedder_preload env\<rparr>"

definition Worker_Run ::
  "(Environment \<Rightarrow> StartExecutionCallback \<Rightarrow> node_failure + Environment)
    \<Rightarrow> Worker \<Rightarrow> Environment \<Rightarrow> node_failure + Environment" where
  "Worker_Run StartExecution worker env =
     LoadEnvironment StartExecution env NoCallback (worker_embedder_preload worker)"

definition fresh_environment :: Environment where
  "fresh_environment =
     \<lparr> m_embedder_preload = None,
       hasStartedUserCJSExecution = False,
       hasStartedUserESMExecution = False,
       env_log = [] \<rparr>"

section \<open>The WebAssembly trap handler and the process initialisation flags\<close>

text \<open>
  Source: the patch "feat: optionally prevent calling V8::EnableWebAssemblyTrapHandler".
  \<^verbatim>\<open>enum Flags : uint32_t\<close>.
\<close>

type_synonym Flags = "32 word"

definition kNoInitializeCppgc :: Flags where
  "kNoInitializeCppgc = push_bit 13 1"

definition kGeneratePredictableSnapshot :: Flags where
  "kGeneratePredictableSnapshot = push_bit 14 1"

definition kNoEnableWasmTrapHandler :: Flags where
  "kNoEnableWasmTrapHandler = push_bit 15 1"

text \<open>
  The engine, as far as the registration goes: the arguments of the calls of
  \<^verbatim>\<open>V8::EnableWebAssemblyTrapHandler\<close> so far. The patch notes that it "can be called
  only once or it will hard crash".
\<close>

record V8 =
  EnableWebAssemblyTrapHandler_calls :: "bool list"

definition EnableWebAssemblyTrapHandler :: "bool \<Rightarrow> V8 \<Rightarrow> V8" where
  "EnableWebAssemblyTrapHandler use_v8_handler v8 =
     v8\<lparr>EnableWebAssemblyTrapHandler_calls :=
          EnableWebAssemblyTrapHandler_calls v8 @ [use_v8_handler]\<rparr>"

definition hard_crash :: "V8 \<Rightarrow> bool" where
  "hard_crash v8 = (length (EnableWebAssemblyTrapHandler_calls v8) > 1)"

text \<open>
  The patched statement of \<open>PlatformInit\<close>. It is compiled only under
  \<^verbatim>\<open>NODE_USE_V8_WASM_TRAP_HANDLER\<close>, and it sits in a block of \<open>PlatformInit\<close> that
  opens above the patch hunk (its closing brace follows the \<^verbatim>\<open>#endif\<close>); whether that
  block is entered is the parameter \<open>block_entered\<close>.
\<close>

definition PlatformInit :: "bool \<Rightarrow> bool \<Rightarrow> Flags \<Rightarrow> V8 \<Rightarrow> V8" where
  "PlatformInit NODE_USE_V8_WASM_TRAP_HANDLER block_entered flags v8 =
     (if block_entered \<and> NODE_USE_V8_WASM_TRAP_HANDLER then
        (if \<not> (flags AND kNoEnableWasmTrapHandler \<noteq> 0)
         then EnableWebAssemblyTrapHandler False v8
         else v8)
      else v8)"

section \<open>The accessibility diagnostic page\<close>

text \<open>
  Source: the patch "fix: patch out Profile refs in accessibility_ui". The patch shows the
  patched statements and their context lines only; code under \<^verbatim>\<open>#if 0\<close> is not
  compiled and has no counterpart below.
\<close>

datatype AXApiType = kNone | kAndroid | kBlink | kMac | kLinux | kWinIA2 | kWinUIA

datatype dict_key =
    kViewsAccessibility
  | kPagesField
  | kBrowsersField
  | kTreeField
  | kApiTypeField
  | kValueField

datatype dict_value = Bool bool | String string | List "dict_value list"

type_synonym Dict = "dict_key \<rightharpoonup> dict_value"

text \<open>The persisted per-profile preferences and the open browser windows of the host.\<close>

record Browser =
  session_id :: int

record Profile =
  prefs :: "string \<rightharpoonup> string"
  BrowserList :: "Browser list"

text \<open>
  \<open>HandleAccessibilityRequestCallback\<close>, as far as the patch shows it: the
  \<open>data\<close> dictionary with the entries set in the patched region, and the local
  \<open>pref_api_type\<close>. The profile is at hand (through \<open>current_context\<close>) and is returned
  as the handler leaves it.
\<close>

definition HandleAccessibilityRequestCallback ::
  "bool \<Rightarrow> dict_value list \<Rightarrow> Profile \<Rightarrow> (Dict \<times> string) \<times> Profile" where
  "HandleAccessibilityRequestCallback views_enabled page_list profile =
     (let data0 = Map.empty;
          data1 = data0(kViewsAccessibility \<mapsto> Bool views_enabled);
          pref_api_type = ''blink'';
          data2 = data1(kPagesField \<mapsto> List page_list);
          browser_list = [];
          data3 = data2(kBrowsersField \<mapsto> List browser_list)
      in ((data3, pref_api_type), profile))"

text \<open>\<open>SetGlobalString\<close>: the body of the api-type branch is compiled out.\<close>

definition SetGlobalString :: "dict_key \<Rightarrow> string \<Rightarrow> Profile \<Rightarrow> Profile" where
  "SetGlobalString string_name value profile =
     (if string_name = kApiTypeField then profile else profile)"

text \<open>
  \<open>RequestWebContentsTree\<close>: the tree is dumped with the api type of the
  \<^verbatim>\<open>#else\<close> branch; \<open>DumpAccessibilityTree\<close> is the web contents' own.
\<close>

definition RequestWebContentsTree ::
  "(AXApiType \<Rightarrow> 'f \<Rightarrow> string) \<Rightarrow> 'f \<Rightarrow> Dict \<Rightarrow> Profile \<Rightarrow> (Dict \<times> AXApiType) \<times> Profile" where
  "RequestWebContentsTree DumpAccessibilityTree property_filters result profile =
     (let api_type = kBlink;
          accessibility_contents = DumpAccessibilityTree api_type property_filters
      in ((result(kTreeField \<mapsto> String accessibility_contents), api_type), profile))"

section \<open>Properties of the broker\<close>

lemma new_controller_request:
  "m_request (MediaStreamDevicesController_new req cb) = req"
  by (simp add: MediaStreamDevicesController_new_def)

lemma new_controller_callback:
  "m_callback (MediaStreamDevicesController_new req cb) = Some cb"
  by (simp add: MediaStreamDevicesController_new_def)

lemma Run_fired:
  "m_callback c = Some cb \<Longrightarrow>
   Run devices result (c, w) = Inr (c\<lparr>m_callback := None\<rparr>, fired cb devices result w)"
  by (simp add: Run_def fired_def)

lemma destructor_fired:
  "m_callback c = Some cb \<Longrightarrow> destructor (c, w) = Inr (fired cb [] FAILED_DUE_TO_SHUTDOWN w)"
  by (simp add: destructor_def Run_def fired_def)

lemma destructor_null:
  "m_callback c = None \<Longrightarrow> destructor (c, w) = Inr w"
  by (simp add: destructor_def)

lemma new_runs_fired:
  "new_runs w (fired cb devices result w) =
     [\<lparr>run_callback = cb, run_devices = devices, run_result = result\<rparr>]"
  by (simp add: new_runs_def fired_def)

lemma new_runs_handed_over:
  "new_runs w (w\<lparr>handed_over := h\<rparr>) = []"
  by (simp add: new_runs_def)

lemma handed_over_fired:
  "handed_over (fired cb devices result w) = handed_over w"
  by (simp add: fired_def)

lemma accept_devices_total:
  assumes "request_type (m_request c) \<noteq> MEDIA_DEVICE_UPDATE"
  shows "\<exists>devices. accept_devices host c = Inr devices"
  using assms by (cases "request_type (m_request c)") (simp_all add: accept_devices_def)

lemma accept_devices_fatal:
  assumes "accept_devices host c = Inl e"
  shows "e = NOTREACHED \<and> request_type (m_request c) = MEDIA_DEVICE_UPDATE"
  using assms
  by (cases "request_type (m_request c)") (simp_all add: accept_devices_def split: if_splits)

lemma Accept_fires:
  assumes "m_callback c = Some cb" and "accept_devices host c = Inr devices"
  shows "Accept host (c, w) = Inr (c\<lparr>m_callback := None\<rparr>, fired cb devices OK w)"
  using assms by (simp add: Accept_def Run_fired)

lemma user_media_devices_nonempty:
  "is_tab_or_desktop_capture req \<Longrightarrow> user_media_devices host req \<noteq> []"
  by (auto simp: is_tab_or_desktop_capture_def user_media_devices_def emplace_back_def Let_def)

text \<open>The five ways through the life of a controller.\<close>

lemma handle_request_desktop:
  assumes "is_tab_or_desktop_capture req"
  shows "handle_request host req cb w = Inr (fired cb (user_media_devices host req) OK w)"
  using assms
  by (simp add: handle_request_def TakeAction_def HandleUserMediaRequest_def Let_def Run_fired
      destructor_null user_media_devices_nonempty new_controller_request new_controller_callback)

lemma handle_request_no_frame:
  assumes "\<not> is_tab_or_desktop_capture req"
    and "RenderFrameHost_FromID host (render_process_id req) (render_frame_id req) = None"
  shows "handle_request host req cb w = Inr (fired cb [] FAILED_DUE_TO_SHUTDOWN w)"
  using assms
  by (simp add: handle_request_def TakeAction_def destructor_fired
      new_controller_request new_controller_callback)

lemma handle_request_delegated:
  assumes "\<not> is_tab_or_desktop_capture req"
    and "RenderFrameHost_FromID host (render_process_id req) (render_frame_id req) = Some session"
    and "ChooseMediaDevice session req"
  shows "handle_request host req cb w = Inr (w\<lparr>handed_over := handed_over w @ [cb]\<rparr>)"
  using assms
  by (simp add: handle_request_def TakeAction_def move_callback_to_session_def destructor_null
      new_controller_request new_controller_callback)

lemma handle_request_accept:
  assumes "\<not> is_tab_or_desktop_capture req"
    and "RenderFrameHost_FromID host (render_process_id req) (render_frame_id req) = Some session"
    and "\<not> ChooseMediaDevice session req"
    and "HasAnyAvailableDevice host"
    and "accept_devices host (MediaStreamDevicesController_new req cb) = Inr devices"
  shows "handle_request host req cb w = Inr (fired cb devices OK w)"
  using assms
  by (simp add: handle_request_def TakeAction_def Accept_fires destructor_null
      new_controller_request new_controller_callback)

lemma handle_request_deny:
  assumes "\<not> is_tab_or_desktop_capture req"
    and "RenderFrameHost_FromID host (render_process_id req) (render_frame_id req) = Some session"
    and "\<not> ChooseMediaDevice session req"
    and "\<not> HasAnyAvailableDevice host"
  shows "handle_request host req cb w = Inr (fired cb [] NO_HARDWARE w)"
  using assms
  by (simp add: handle_request_def TakeAction_def Deny_def Run_fired destructor_null
      new_controller_request new_controller_callback)

lemma handle_request_accept_fatal:
  assumes "\<not> is_tab_or_desktop_capture req"
    and "RenderFrameHost_FromID host (render_process_id req) (render_frame_id req) = Some session"
    and "\<not> ChooseMediaDevice session req"
    and "HasAnyAvailableDevice host"
    and "accept_devices host (MediaStreamDevicesController_new req cb) = Inl e"
  shows "handle_request host req cb w = Inl e"
  using assms
  by (simp add: handle_request_def TakeAction_def Accept_def new_controller_request)

text \<open>
  The life of a controller ends in one of three ways: at the fatal assertion of the
  update-type case of \<open>Accept\<close>, before any run of the callback; with the callback
  moved into the session's chooser and never run by the controller; or with the callback
  run once by the controller, with \<open>OK\<close> or with an empty device list and one of the
  two failure reasons.
\<close>

lemma handle_request_outcome:
  "(handle_request host req cb w = Inl NOTREACHED \<and> request_type req = MEDIA_DEVICE_UPDATE)
   \<or> (delegates host req \<and>
       handle_request host req cb w = Inr (w\<lparr>handed_over := handed_over w @ [cb]\<rparr>))
   \<or> (\<not> delegates host req \<and>
       (\<exists>devices result.
          handle_request host req cb w = Inr (fired cb devices result w) \<and>
          (result = OK \<or>
           (devices = [] \<and> (result = NO_HARDWARE \<or> result = FAILED_DUE_TO_SHUTDOWN)))))"
proof (cases "is_tab_or_desktop_capture req")
  case True
  then show ?thesis
    using handle_request_desktop [OF True] by (auto simp: delegates_def)
next
  case nd: False
  show ?thesis
  proof (cases "RenderFrameHost_FromID host (render_process_id req) (render_frame_id req)")
    case None
    then show ?thesis
      using handle_request_no_frame [OF nd None] by (auto simp: delegates_def)
  next
    case (Some session)
    show ?thesis
    proof (cases "ChooseMediaDevice session req")
      case True
      then show ?thesis
        using handle_request_delegated [OF nd Some True] nd Some by (simp add: delegates_def)
    next
      case decl: False
      show ?thesis
      proof (cases "HasAnyAvailableDevice host")
        case has: True
        show ?thesis
        proof (cases "accept_devices host (MediaStreamDevicesController_new req cb)")
          case (Inl e)
          then have "e = NOTREACHED" and "request_type req = MEDIA_DEVICE_UPDATE"
            using accept_devices_fatal [OF Inl] by (simp_all add: new_controller_request)
          then show ?thesis
            using handle_request_accept_fatal [OF nd Some decl has Inl] by simp
        next
          case (Inr devices)
          then show ?thesis
            using handle_request_accept [OF nd Some decl has Inr] nd Some decl
            by (auto simp: delegates_def)
        qed
      next
        case False
        then show ?thesis
          using handle_request_deny [OF nd Some decl False] nd Some decl
          by (auto simp: delegates_def)
      qed
    qed
  qed
qed

lemma handle_request_supported:
  assumes "request_type req \<noteq> MEDIA_DEVICE_UPDATE"
  shows "\<exists>w'. handle_request host req cb w = Inr w'"
  using handle_request_outcome [of host req cb w] assms by auto




text \<open>
  C2, as stated, fails: the guard of \<open>TakeAction\<close> asks whether any capture device at
  all is attached, not whether one of the requested kind is. A microphone-only request on
  a host that has a camera and no microphone is not delegated, finds no device of the
  requested kind, and is still accepted: the callback runs with \<open>OK\<close> and an empty
  device list.
\<close>

theorem C2_counterexample:
  "\<not> is_tab_or_desktop_capture audio_only_request
   \<and> RenderFrameHost_FromID (example_host [] [cam1]) (render_process_id audio_only_request)
         (render_frame_id audio_only_request) = Some declining_session
   \<and> \<not> ChooseMediaDevice declining_session audio_only_request
   \<and> m_microphone_requested (MediaStreamDevicesController_new audio_only_request 0)
   \<and> \<not> m_webcam_requested (MediaStreamDevicesController_new audio_only_request 0)
   \<and> GetAudioCaptureDevices (dispatcher (example_host [] [cam1])) = []
   \<and> handle_request (example_host [] [cam1]) audio_only_request 0 empty_world
       = Inr \<lparr>invocations = [\<lparr>run_callback = 0, run_devices = [], run_result = OK\<rparr>],
              handed_over = []\<rparr>
   \<and> handle_request (example_host [] [cam1]) audio_only_request 0 empty_world
       \<noteq> Inr \<lparr>invocations = [\<lparr>run_callback = 0, run_devices = [], run_result = NO_HARDWARE\<rparr>],
              handed_over = []\<rparr>"
  by (simp add: audio_only_request_def handle_request_def TakeAction_def Accept_def
      accept_devices_def generate_stream_def Run_def destructor_def HasAnyAvailableDevice_def
      MediaStreamDevicesController_new_def example_request_def example_host_def
      example_frames_def declining_session_def device_list_dispatcher_def first_available_def
      is_tab_or_desktop_capture_def empty_world_def cam1_def)

text \<open>
  C2, amended. For a request that is neither a tab nor a desktop capture, whose frame host
  exists and whose session declines to take the callback: if no capture device at all is
  attached to the host (neither audio nor video), the callback runs exactly once, with
  \<open>NO_HARDWARE\<close> and an empty device list.
\<close>

theorem C2_no_device_attached_is_no_hardware:
  assumes "\<not> is_tab_or_desktop_capture req"
    and "RenderFrameHost_FromID host (render_process_id req) (render_frame_id req)
           = Some session"
    and "\<not> ChooseMediaDevice session req"
    and "GetAudioCaptureDevices (dispatcher host) = []"
    and "GetVideoCaptureDevices (dispatcher host) = []"
  shows "handle_request host req cb w =
           Inr (w\<lparr>invocations := invocations w @
                  [\<lparr>run_callback = cb, run_devices = [], run_result = NO_HARDWARE\<rparr>]\<rparr>)"
proof -
  have "\<not> HasAnyAvailableDevice host"
    using assms(4,5) by (simp add: HasAnyAvailableDevice_def)
  from handle_request_deny [OF assms(1-3) this] show ?thesis
    by (simp add: fired_def)
qed

theorem C2_witness:
  "handle_request (example_host [] [])
     (example_request 1 MEDIA_GENERATE_STREAM DEVICE_AUDIO_CAPTURE DEVICE_VIDEO_CAPTURE [] [])
     3 empty_world
   = Inr \<lparr>invocations = [\<lparr>run_callback = 3, run_devices = [], run_result = NO_HARDWARE\<rparr>],
          handed_over = []\<rparr>"
  using C2_no_device_attached_is_no_hardware
    [of "example_request 1 MEDIA_GENERATE_STREAM DEVICE_AUDIO_CAPTURE DEVICE_VIDEO_CAPTURE [] []"
        "example_host [] []" declining_session 3 empty_world]
  by (simp add: example_request_def example_host_def example_frames_def declining_session_def
      device_list_dispatcher_def is_tab_or_desktop_capture_def empty_world_def)

text \<open>
  C3. Every run of the callback that the controller makes over its life has result
  \<open>OK\<close> (with the devices granted), or has an empty device list together with
  \<open>NO_HARDWARE\<close> or \<open>FAILED_DUE_TO_SHUTDOWN\<close>; a request that is not delegated does
  get such a run; and the controller's life runs to its end for every request that is not
  of the unsupported update type. \<open>Deny\<close> itself always passes an empty device list
  with the reason it is given.
\<close>

theorem C3_resolution_is_ok_or_empty_failure:
  "(request_type req \<noteq> MEDIA_DEVICE_UPDATE \<longrightarrow>
      (\<exists>w1. handle_request host req cb w = Inr w1))
   \<and> (handle_request host req cb w = Inr w' \<longrightarrow>
        (\<forall>r \<in> set (new_runs w w').
           run_result r = OK \<or>
           (run_devices r = [] \<and>
            (run_result r = NO_HARDWARE \<or> run_result r = FAILED_DUE_TO_SHUTDOWN))) \<and>
        (\<not> delegates host req \<longrightarrow> new_runs w w' \<noteq> []))
   \<and> (m_callback c = Some cb \<longrightarrow>
        Deny reason (c, w) =
          Inr (c\<lparr>m_callback := None\<rparr>,
               w\<lparr>invocations := invocations w @
                  [\<lparr>run_callback = cb, run_devices = [], run_result = reason\<rparr>]\<rparr>))"
proof -
  have supported: "request_type req \<noteq> MEDIA_DEVICE_UPDATE \<longrightarrow>
      (\<exists>w1. handle_request host req cb w = Inr w1)"
    by (simp add: handle_request_supported)
  have life: "handle_request host req cb w = Inr w' \<longrightarrow>
        (\<forall>r \<in> set (new_runs w w').
           run_result r = OK \<or>
           (run_devices r = [] \<and>
            (run_result r = NO_HARDWARE \<or> run_result r = FAILED_DUE_TO_SHUTDOWN))) \<and>
        (\<not> delegates host req \<longrightarrow> new_runs w w' \<noteq> [])"
  proof
    assume run: "handle_request host req cb w = Inr w'"
    show "(\<forall>r \<in> set (new_runs w w').
           run_result r = OK \<or>
           (run_devices r = [] \<and>
            (run_result r = NO_HARDWARE \<or> run_result r = FAILED_DUE_TO_SHUTDOWN))) \<and>
        (\<not> delegates host req \<longrightarrow> new_runs w w' \<noteq> [])"
    proof (cases "delegates host req")
      case True
      then have "w' = w\<lparr>handed_over := handed_over w @ [cb]\<rparr>"
        using handle_request_outcome [of host req cb w] run by auto
      with True show ?thesis by (simp add: new_runs_handed_over)
    next
      case False
      then obtain devices result
        where w': "w' = fired cb devices result w"
          and shape: "result = OK \<or>
               (devices = [] \<and> (result = NO_HARDWARE \<or> result = FAILED_DUE_TO_SHUTDOWN))"
        using handle_request_outcome [of host req cb w] run by auto
      show ?thesis
        using shape by (simp add: w' new_runs_fired)
    qed
  qed
  have deny: "m_callback c = Some cb \<longrightarrow>
        Deny reason (c, w) =
          Inr (c\<lparr>m_callback := None\<rparr>,
               w\<lparr>invocations := invocations w @
                  [\<lparr>run_callback = cb, run_devices = [], run_result = reason\<rparr>]\<rparr>)"
    by (simp add: Deny_def Run_fired fired_def)
  from supported life deny show ?thesis by blast
qed

theorem C3_witness:
  "new_runs empty_world
     \<lparr>invocations = [\<lparr>run_callback = 4, run_devices = [mic1, cam1], run_result = OK\<rparr>],
      handed_over = []\<rparr>
   = [\<lparr>run_callback = 4, run_devices = [mic1, cam1], run_result = OK\<rparr>]
   \<and> handle_request (example_host [mic1] [cam1])
       (example_request 1 MEDIA_DEVICE_ACCESS DEVICE_AUDIO_CAPTURE DEVICE_VIDEO_CAPTURE [] [])
       4 empty_world
     = Inr \<lparr>invocations = [\<lparr>run_callback = 4, run_devices = [mic1, cam1], run_result = OK\<rparr>],
            handed_over = []\<rparr>
   \<and> Deny NO_HARDWARE
       (MediaStreamDevicesController_new
          (example_request 1 MEDIA_DEVICE_ACCESS DEVICE_AUDIO_CAPTURE DEVICE_VIDEO_CAPTURE [] [])
          4,
        empty_world)
     = Inr (MediaStreamDevicesController_new
              (example_request 1 MEDIA_DEVICE_ACCESS DEVICE_AUDIO_CAPTURE DEVICE_VIDEO_CAPTURE
                 [] []) 4
            \<lparr>m_callback := None\<rparr>,
            \<lparr>invocations =
               [\<lparr>run_callback = 4, run_devices = [], run_result = NO_HARDWARE\<rparr>],
             handed_over = []\<rparr>)"
  using C3_resolution_is_ok_or_empty_failure
    [of "example_request 1 MEDIA_DEVICE_ACCESS DEVICE_AUDIO_CAPTURE DEVICE_VIDEO_CAPTURE [] []"
        "example_host [mic1] [cam1]" 4 empty_world
        "\<lparr>invocations = [\<lparr>run_callback = 4, run_devices = [mic1, cam1], run_result = OK\<rparr>],
          handed_over = []\<rparr>"
        "MediaStreamDevicesController_new
          (example_request 1 MEDIA_DEVICE_ACCESS DEVICE_AUDIO_CAPTURE DEVICE_VIDEO_CAPTURE [] [])
          4"
        NO_HARDWARE]
  by (simp add: handle_request_def TakeAction_def Accept_def accept_devices_def Deny_def
      Run_def destructor_def HasAnyAvailableDevice_def new_runs_def
      MediaStreamDevicesController_new_def example_request_def example_host_def
      example_frames_def declining_session_def device_list_dispatcher_def first_available_def
      is_tab_or_desktop_capture_def empty_world_def delegates_def mic1_def cam1_def)

lemma user_media_devices_desktop_video:
  assumes "video_type req = GUM_DESKTOP_VIDEO_CAPTURE"
  shows "filter (\<lambda>d. dev_type d = GUM_DESKTOP_VIDEO_CAPTURE) (user_media_devices host req) =
           [\<lparr>dev_type = GUM_DESKTOP_VIDEO_CAPTURE,
             dev_id = DesktopMediaID_ToString host (screen_id host req),
             dev_name = ''Screen''\<rparr>]"
  using assms by (simp add: user_media_devices_def emplace_back_def Let_def)

text \<open>
  C4. A request whose video kind is desktop capture is resolved with \<open>OK\<close> and a device
  list that holds exactly one desktop-video descriptor, named "Screen". Its id is the
  string form of the capture target: the full-screen sentinel (type \<open>TYPE_SCREEN\<close> with
  the full-desktop screen id \<open>-1\<close>) when the requested video device id is empty, and the
  desktop media id parsed from the requested video device id otherwise.
\<close>

theorem C4_desktop_video_target:
  assumes "video_type req = GUM_DESKTOP_VIDEO_CAPTURE"
  shows "\<exists>devices.
           handle_request host req cb w =
             Inr (w\<lparr>invocations := invocations w @
                    [\<lparr>run_callback = cb, run_devices = devices, run_result = OK\<rparr>]\<rparr>) \<and>
           filter (\<lambda>d. dev_type d = GUM_DESKTOP_VIDEO_CAPTURE) devices =
             [\<lparr>dev_type = GUM_DESKTOP_VIDEO_CAPTURE,
               dev_id = DesktopMediaID_ToString host
                 (if requested_video_device_id req = []
                  then \<lparr>media_type = TYPE_SCREEN, media_id = kFullDesktopScreenId\<rparr>
                  else DesktopMediaID_Parse host (requested_video_device_id req)),
               dev_name = ''Screen''\<rparr>]"
proof -
  have "is_tab_or_desktop_capture req"
    using assms by (simp add: is_tab_or_desktop_capture_def)
  then have run: "handle_request host req cb w =
      Inr (w\<lparr>invocations := invocations w @
             [\<lparr>run_callback = cb, run_devices = user_media_devices host req,
               run_result = OK\<rparr>]\<rparr>)"
    by (simp add: handle_request_desktop fired_def)
  have target: "screen_id host req =
      (if requested_video_device_id req = []
       then \<lparr>media_type = TYPE_SCREEN, media_id = kFullDesktopScreenId\<rparr>
       else DesktopMediaID_Parse host (requested_video_device_id req))"
    by (simp add: screen_id_def kFullDesktopScreenId_def)
  have "filter (\<lambda>d. dev_type d = GUM_DESKTOP_VIDEO_CAPTURE) (user_media_devices host req) =
             [\<lparr>dev_type = GUM_DESKTOP_VIDEO_CAPTURE,
               dev_id = DesktopMediaID_ToString host
                 (if requested_video_device_id req = []
                  then \<lparr>media_type = TYPE_SCREEN, media_id = kFullDesktopScreenId\<rparr>
                  else DesktopMediaID_Parse host (requested_video_device_id req)),
               dev_name = ''Screen''\<rparr>]"
    using user_media_devices_desktop_video [OF assms, of host] target by simp
  with run show ?thesis by blast
qed

theorem C4_witness:
  "handle_request (example_host [mic1] [cam1])
     (example_request 1 MEDIA_GENERATE_STREAM NO_SERVICE GUM_DESKTOP_VIDEO_CAPTURE [] [])
     1 empty_world
   = Inr \<lparr>invocations =
            [\<lparr>run_callback = 1,
              run_devices = [\<lparr>dev_type = GUM_DESKTOP_VIDEO_CAPTURE, dev_id = ''screen:-1'',
                              dev_name = ''Screen''\<rparr>],
              run_result = OK\<rparr>],
          handed_over = []\<rparr>
   \<and> handle_request (example_host [mic1] [cam1])
       (example_request 1 MEDIA_GENERATE_STREAM GUM_DESKTOP_AUDIO_CAPTURE
          GUM_DESKTOP_VIDEO_CAPTURE [] ''window:7:0'')
       2 empty_world
     = Inr \<lparr>invocations =
              [\<lparr>run_callback = 2,
                run_devices = [\<lparr>dev_type = GUM_DESKTOP_AUDIO_CAPTURE, dev_id = ''loopback'',
                                dev_name = ''System Audio''\<rparr>,
                              \<lparr>dev_type = GUM_DESKTOP_VIDEO_CAPTURE, dev_id = ''window:7'',
                                dev_name = ''Screen''\<rparr>],
                run_result = OK\<rparr>],
            handed_over = []\<rparr>"
  using
    C4_desktop_video_target
      [of "example_request 1 MEDIA_GENERATE_STREAM NO_SERVICE GUM_DESKTOP_VIDEO_CAPTURE [] []"
          "example_host [mic1] [cam1]" 1 empty_world]
    C4_desktop_video_target
      [of "example_request 1 MEDIA_GENERATE_STREAM GUM_DESKTOP_AUDIO_CAPTURE
             GUM_DESKTOP_VIDEO_CAPTURE [] ''window:7:0''"
          "example_host [mic1] [cam1]" 2 empty_world]
  by (simp add: handle_request_def TakeAction_def HandleUserMediaRequest_def
      user_media_devices_def emplace_back_def screen_id_def Run_def destructor_def
      MediaStreamDevicesController_new_def example_request_def example_host_def
      example_ToString_def is_tab_or_desktop_capture_def empty_world_def Let_def)

text \<open>
  C5. An accepted open-device (Pepper) request is granted the first available device of
  the requested kind when the dispatcher knows no device of that kind with the requested
  id and a first available one exists: the callback runs with \<open>OK\<close> and exactly that
  device. The requested kind is audio when the audio kind of the request is device audio
  capture, and video when it is not and the video kind is device video capture (the Pepper
  API opens one device at a time).
\<close>

theorem C5_open_device_falls_back_to_first_available:
  assumes "request_type req = MEDIA_OPEN_DEVICE_PEPPER_ONLY"
  shows "(audio_type req = DEVICE_AUDIO_CAPTURE \<and>
          GetRequestedAudioDevice (dispatcher host) (requested_audio_device_id req) = None \<and>
          GetFirstAvailableAudioDevice (dispatcher host) = Some dev
          \<longrightarrow> Accept host (MediaStreamDevicesController_new req cb, w) =
                Inr (MediaStreamDevicesController_new req cb \<lparr>m_callback := None\<rparr>,
                     w\<lparr>invocations := invocations w @
                        [\<lparr>run_callback = cb, run_devices = [dev], run_result = OK\<rparr>]\<rparr>))
       \<and> (audio_type req \<noteq> DEVICE_AUDIO_CAPTURE \<and> video_type req = DEVICE_VIDEO_CAPTURE \<and>
          GetRequestedVideoDevice (dispatcher host) (requested_video_device_id req) = None \<and>
          GetFirstAvailableVideoDevice (dispatcher host) = Some dev
          \<longrightarrow> Accept host (MediaStreamDevicesController_new req cb, w) =
                Inr (MediaStreamDevicesController_new req cb \<lparr>m_callback := None\<rparr>,
                     w\<lparr>invocations := invocations w @
                        [\<lparr>run_callback = cb, run_devices = [dev], run_result = OK\<rparr>]\<rparr>))"
  using assms
  by (simp add: Accept_def accept_devices_def open_device_pepper_only_def Run_def
      MediaStreamDevicesController_new_def push_back_def Let_def)

theorem C5_witness:
  "Accept (example_host [mic1, mic2] [cam1, cam2])
     (MediaStreamDevicesController_new
        (example_request 1 MEDIA_OPEN_DEVICE_PEPPER_ONLY DEVICE_AUDIO_CAPTURE NO_SERVICE
           ''unplugged'' []) 8,
      empty_world)
   = Inr (MediaStreamDevicesController_new
            (example_request 1 MEDIA_OPEN_DEVICE_PEPPER_ONLY DEVICE_AUDIO_CAPTURE NO_SERVICE
               ''unplugged'' []) 8
          \<lparr>m_callback := None\<rparr>,
          \<lparr>invocations = [\<lparr>run_callback = 8, run_devices = [mic1], run_result = OK\<rparr>],
           handed_over = []\<rparr>)
   \<and> Accept (example_host [mic1, mic2] [cam1, cam2])
       (MediaStreamDevicesController_new
          (example_request 1 MEDIA_OPEN_DEVICE_PEPPER_ONLY NO_SERVICE DEVICE_VIDEO_CAPTURE
             [] ''unplugged'') 9,
        empty_world)
     = Inr (MediaStreamDevicesController_new
              (example_request 1 MEDIA_OPEN_DEVICE_PEPPER_ONLY NO_SERVICE DEVICE_VIDEO_CAPTURE
                 [] ''unplugged'') 9
            \<lparr>m_callback := None\<rparr>,
            \<lparr>invocations = [\<lparr>run_callback = 9, run_devices = [cam1], run_result = OK\<rparr>],
             handed_over = []\<rparr>)"
  using
    C5_open_device_falls_back_to_first_available
      [of "example_request 1 MEDIA_OPEN_DEVICE_PEPPER_ONLY DEVICE_AUDIO_CAPTURE NO_SERVICE
             ''unplugged'' []"
          "example_host [mic1, mic2] [cam1, cam2]" mic1 8 empty_world]
    C5_open_device_falls_back_to_first_available
      [of "example_request 1 MEDIA_OPEN_DEVICE_PEPPER_ONLY NO_SERVICE DEVICE_VIDEO_CAPTURE
             [] ''unplugged''"
          "example_host [mic1, mic2] [cam1, cam2]" cam1 9 empty_world]
  by (simp add: example_request_def example_host_def device_list_dispatcher_def
      first_available_def empty_world_def mic1_def mic2_def cam1_def cam2_def)

text \<open>
  C10. When \<open>TakeAction\<close> is invoked for a request that is neither a tab nor a desktop
  capture and whose render frame host no longer exists, it returns with the controller and
  the world as they were: the callback is still unfired, no device is granted and no
  failure is reported. The callback then fires through the destructor, once, with
  \<open>FAILED_DUE_TO_SHUTDOWN\<close> and an empty device list.
\<close>

theorem C10_gone_frame_host_leaves_callback_to_destructor:
  assumes "m_callback c = Some cb"
    and "\<not> is_tab_or_desktop_capture (m_request c)"
    and "RenderFrameHost_FromID host (render_process_id (m_request c))
           (render_frame_id (m_request c)) = None"
  shows "TakeAction host (c, w) = Inr (c, w) \<and>
         destructor (c, w) =
           Inr (w\<lparr>invocations := invocations w @
                  [\<lparr>run_callback = cb, run_devices = [],
                    run_result = FAILED_DUE_TO_SHUTDOWN\<rparr>]\<rparr>)"
  using assms by (simp add: TakeAction_def destructor_fired fired_def)

theorem C10_witness:
  "TakeAction (example_host [mic1] [cam1])
     (MediaStreamDevicesController_new
        (example_request 3 MEDIA_GENERATE_STREAM DEVICE_AUDIO_CAPTURE NO_SERVICE [] []) 5,
      empty_world)
   = Inr (MediaStreamDevicesController_new
            (example_request 3 MEDIA_GENERATE_STREAM DEVICE_AUDIO_CAPTURE NO_SERVICE [] []) 5,
          empty_world)
   \<and> destructor
       (MediaStreamDevicesController_new
          (example_request 3 MEDIA_GENERATE_STREAM DEVICE_AUDIO_CAPTURE NO_SERVICE [] []) 5,
        empty_world)
     = Inr \<lparr>invocations =
              [\<lparr>run_callback = 5, run_devices = [], run_result = FAILED_DUE_TO_SHUTDOWN\<rparr>],
            handed_over = []\<rparr>"
  using C10_gone_frame_host_leaves_callback_to_destructor
    [of "MediaStreamDevicesController_new
           (example_request 3 MEDIA_GENERATE_STREAM DEVICE_AUDIO_CAPTURE NO_SERVICE [] [])
           5"
        5 "example_host [mic1] [cam1]" empty_world]
  by (simp add: MediaStreamDevicesController_new_def example_request_def example_host_def
      example_frames_def is_tab_or_desktop_capture_def empty_world_def)

section \<open>Properties of the embedder preload hook\<close>

lemma RunEmbedderPreload_process_require:
  "embedder_preload env = Some hook \<Longrightarrow>
   runEmbedderPreload env =
     Inr (env\<lparr>env_log := env_log env @ [EmbedderPreloadCalled hook process require]\<rparr>)"
  by (simp add: runEmbedderPreload_def RunEmbedderPreload_def process_def require_def)

lemma setupUserModules_with_hook:
  assumes "\<not> hasStartedUserCJSExecution env" and "\<not> hasStartedUserESMExecution env"
    and "embedder_preload env = Some hook"
  shows "setupUserModules True rest env =
           rest (env\<lparr>env_log := env_log env @ [EmbedderPreloadCalled hook process require]\<rparr>)"
  using assms
  by (simp add: setupUserModules_def GetEmbedderOptions_def RunEmbedderPreload_process_require)

lemma setupUserModules_without_hook:
  assumes "\<not> hasStartedUserCJSExecution env" and "\<not> hasStartedUserESMExecution env"
    and "embedder_preload env = None"
  shows "setupUserModules True rest env = rest env"
  using assms by (simp add: setupUserModules_def GetEmbedderOptions_def)

lemma LoadEnvironment_registers:
  "LoadEnvironment start env cb (Some hook) =
     start (env\<lparr>env_log := env_log env @ [InitializeLibuv, InitializeDiagnostics],
               m_embedder_preload := Some hook\<rparr>) cb"
  by (simp add: LoadEnvironment_def set_embedder_preload_def Let_def)

text \<open>
  C6. Within \<open>setupUserModules\<close> the embedder preload hook runs only when no user
  CommonJS or ES module execution has started (otherwise the function stops at its
  assertions and runs nothing), it runs before everything the function does afterwards
  (enabling preload modules and the user module loaders, the parameter \<open>rest\<close>), it
  runs exactly once, and it is called with the process object and the internal require
  function. When no hook is registered none is run. A worker copies the hook of the
  environment that creates it and registers it on its own environment before that
  environment starts executing (whatever \<open>StartExecution\<close> does then); the same holds
  for an environment that \<open>LoadEnvironment\<close> is given a hook for. With a start of
  execution that reaches \<open>setupUserModules\<close>, the hook so registered is the one event
  between the initialisation and the rest.
\<close>

theorem C6_embedder_preload_runs_once_before_user_modules:
  assumes "\<not> hasStartedUserCJSExecution env" and "\<not> hasStartedUserESMExecution env"
    and "embedder_preload parent = Some hook"
  shows "(embedder_preload env = Some h \<longrightarrow>
            setupUserModules True rest env =
              rest (env\<lparr>env_log := env_log env @ [EmbedderPreloadCalled h process require]\<rparr>))
       \<and> (embedder_preload env = None \<longrightarrow> setupUserModules True rest env = rest env)
       \<and> setupUserModules set_ok rest (env\<lparr>hasStartedUserCJSExecution := True\<rparr>)
           = Inl AssertionError
       \<and> setupUserModules set_ok rest (env\<lparr>hasStartedUserESMExecution := True\<rparr>)
           = Inl AssertionError
       \<and> LoadEnvironment start env cb0 (Some hook) =
           start (env\<lparr>env_log := env_log env @ [InitializeLibuv, InitializeDiagnostics],
                      m_embedder_preload := Some hook\<rparr>) cb0
       \<and> Worker_Run start (Worker_new parent) env =
           start (env\<lparr>env_log := env_log env @ [InitializeLibuv, InitializeDiagnostics],
                      m_embedder_preload := Some hook\<rparr>) NoCallback
       \<and> LoadEnvironment (\<lambda>e cb. setupUserModules True rest e) env cb0 (Some hook) =
           rest (env\<lparr>env_log := env_log env @
                       [InitializeLibuv, InitializeDiagnostics,
                        EmbedderPreloadCalled hook process require],
                     m_embedder_preload := Some hook\<rparr>)
       \<and> Worker_Run (\<lambda>e cb. setupUserModules True rest e) (Worker_new parent) env =
           rest (env\<lparr>env_log := env_log env @
                       [InitializeLibuv, InitializeDiagnostics,
                        EmbedderPreloadCalled hook process require],
                     m_embedder_preload := Some hook\<rparr>)"
proof -
  let ?loaded = "env\<lparr>env_log := env_log env @ [InitializeLibuv, InitializeDiagnostics],
                     m_embedder_preload := Some hook\<rparr>"
  have with_hook: "embedder_preload env = Some h \<longrightarrow>
            setupUserModules True rest env =
              rest (env\<lparr>env_log := env_log env @ [EmbedderPreloadCalled h process require]\<rparr>)"
    using assms(1,2) by (simp add: setupUserModules_with_hook)
  have without_hook: "embedder_preload env = None \<longrightarrow> setupUserModules True rest env = rest env"
    using assms(1,2) by (simp add: setupUserModules_without_hook)
  have cjs: "setupUserModules set_ok rest (env\<lparr>hasStartedUserCJSExecution := True\<rparr>)
           = Inl AssertionError"
    by (simp add: setupUserModules_def)
  have esm: "setupUserModules set_ok rest (env\<lparr>hasStartedUserESMExecution := True\<rparr>)
           = Inl AssertionError"
    by (simp add: setupUserModules_def)
  have loaded: "setupUserModules True rest ?loaded =
      rest (env\<lparr>env_log := env_log env @
                  [InitializeLibuv, InitializeDiagnostics,
                   EmbedderPreloadCalled hook process require],
                m_embedder_preload := Some hook\<rparr>)"
    using assms(1,2)
    by (cases env)
      (simp add: setupUserModules_with_hook [where hook = hook] embedder_preload_def)
  have main: "LoadEnvironment (\<lambda>e cb. setupUserModules True rest e) env cb0 (Some hook) =
           rest (env\<lparr>env_log := env_log env @
                       [InitializeLibuv, InitializeDiagnostics,
                        EmbedderPreloadCalled hook process require],
                     m_embedder_preload := Some hook\<rparr>)"
    using loaded by (simp add: LoadEnvironment_registers)
  have worker: "Worker_Run (\<lambda>e cb. setupUserModules True rest e) (Worker_new parent) env =
           rest (env\<lparr>env_log := env_log env @
                       [InitializeLibuv, InitializeDiagnostics,
                        EmbedderPreloadCalled hook process require],
                     m_embedder_preload := Some hook\<rparr>)"
    using loaded assms(3) by (simp add: Worker_Run_def Worker_new_def LoadEnvironment_registers)
  have load_any: "LoadEnvironment start env cb0 (Some hook) =
           start (env\<lparr>env_log := env_log env @ [InitializeLibuv, InitializeDiagnostics],
                      m_embedder_preload := Some hook\<rparr>) cb0"
    by (rule LoadEnvironment_registers)
  have worker_any: "Worker_Run start (Worker_new parent) env =
           start (env\<lparr>env_log := env_log env @ [InitializeLibuv, InitializeDiagnostics],
                      m_embedder_preload := Some hook\<rparr>) NoCallback"
    using assms(3) by (simp add: Worker_Run_def Worker_new_def LoadEnvironment_registers)
  from with_hook without_hook cjs esm load_any worker_any main worker show ?thesis by blast
qed

theorem C6_witness:
  "setupUserModules True Inr (fresh_environment\<lparr>m_embedder_preload := Some ''inject''\<rparr>)
   = Inr (fresh_environment
            \<lparr>env_log := [EmbedderPreloadCalled ''inject'' (Object ''process'')
                           (Function ''require'')],
             m_embedder_preload := Some ''inject''\<rparr>)
   \<and> setupUserModules True Inr fresh_environment = Inr fresh_environment
   \<and> Worker_Run (\<lambda>e cb. setupUserModules True Inr e)
       (Worker_new (fresh_environment\<lparr>m_embedder_preload := Some ''inject''\<rparr>))
       fresh_environment
     = Inr (fresh_environment
              \<lparr>env_log := [InitializeLibuv, InitializeDiagnostics,
                           EmbedderPreloadCalled ''inject'' (Object ''process'')
                             (Function ''require'')],
               m_embedder_preload := Some ''inject''\<rparr>)"
  using
    C6_embedder_preload_runs_once_before_user_modules
      [of "fresh_environment\<lparr>m_embedder_preload := Some ''inject''\<rparr>"
          "fresh_environment\<lparr>m_embedder_preload := Some ''inject''\<rparr>"
          "''inject''" "''inject''" Inr True "\<lambda>e cb. Inr e" NoCallback]
    C6_embedder_preload_runs_once_before_user_modules
      [of fresh_environment
          "fresh_environment\<lparr>m_embedder_preload := Some ''inject''\<rparr>"
          "''inject''" "''inject''" Inr True "\<lambda>e cb. Inr e" NoCallback]
  by (simp add: fresh_environment_def embedder_preload_def process_def require_def)

text \<open>
  C7. The \<open>hasEmbedderPreload\<close> flag of the embedder options is true exactly when a hook
  is registered on the environment at the time the options are queried: it reflects the
  member as it stands, and after \<open>set_embedder_preload\<close> it reflects what was just set.
  (When setting the property on the options object fails, no options object is returned.)
\<close>

theorem C7_hasEmbedderPreload_reflects_registered_hook:
  "(\<exists>options. GetEmbedderOptions True env = Some options \<and>
               hasEmbedderPreload options = (embedder_preload env \<noteq> None))
   \<and> (\<exists>options. GetEmbedderOptions True (set_embedder_preload fn env) = Some options \<and>
               hasEmbedderPreload options = (fn \<noteq> None))
   \<and> GetEmbedderOptions False env = None"
  by (simp add: GetEmbedderOptions_def embedder_preload_def set_embedder_preload_def)

theorem C7_witness:
  "GetEmbedderOptions True fresh_environment = Some \<lparr>hasEmbedderPreload = False\<rparr>
   \<and> GetEmbedderOptions True (set_embedder_preload (Some ''inject'') fresh_environment)
       = Some \<lparr>hasEmbedderPreload = True\<rparr>
   \<and> GetEmbedderOptions True
         (set_embedder_preload None
            (set_embedder_preload (Some ''inject'') fresh_environment))
       = Some \<lparr>hasEmbedderPreload = False\<rparr>"
  using
    C7_hasEmbedderPreload_reflects_registered_hook [of fresh_environment "Some ''inject''"]
    C7_hasEmbedderPreload_reflects_registered_hook
      [of "set_embedder_preload (Some ''inject'') fresh_environment" None]
  by (auto simp: fresh_environment_def embedder_preload_def set_embedder_preload_def)

section \<open>Properties of the trap handler guard\<close>

lemma kNoEnableWasmTrapHandler_test:
  "(flags AND kNoEnableWasmTrapHandler \<noteq> 0) = bit flags 15"
  for flags :: Flags
proof -
  have "(flags AND 2 ^ 15 = 0) = (\<not> bit flags 15)"
    by (rule and_exp_eq_0_iff_not_bit)
  then show ?thesis
    unfolding kNoEnableWasmTrapHandler_def push_bit_of_1 by blast
qed

text \<open>
  C8, as stated, fails: the patched statement sits inside a block of \<open>PlatformInit\<close>,
  so a clear \<open>kNoEnableWasmTrapHandler\<close> bit alone does not make the registration
  happen. With the trap handler compiled in, no flag set and the enclosing block not
  entered, \<open>PlatformInit\<close> makes no call of \<^verbatim>\<open>V8::EnableWebAssemblyTrapHandler\<close>.
\<close>

theorem C8_counterexample:
  "\<not> bit (0 :: Flags) 15
   \<and> (0 :: Flags) AND kNoEnableWasmTrapHandler = 0
   \<and> PlatformInit True False 0 \<lparr>EnableWebAssemblyTrapHandler_calls = []\<rparr>
       = \<lparr>EnableWebAssemblyTrapHandler_calls = []\<rparr>
   \<and> EnableWebAssemblyTrapHandler_calls
         (PlatformInit True False 0 \<lparr>EnableWebAssemblyTrapHandler_calls = []\<rparr>) = []"
  by (simp add: PlatformInit_def)

text \<open>
  C8, amended. \<open>PlatformInit\<close> calls \<^verbatim>\<open>V8::EnableWebAssemblyTrapHandler(false)\<close>, once,
  exactly when the trap handler is compiled in, control enters the block that encloses the
  patched statement, and bit 15 of the flags (\<open>kNoEnableWasmTrapHandler\<close>) is clear,
  whatever the other bits are; otherwise it makes no call. With the bit set it never makes
  the call, so an engine that the embedder has registered once already is registered a
  second time (the hard crash) exactly when the three conditions hold.
\<close>

theorem C8_trap_handler_enabled_iff_reached_and_flag_clear:
  "EnableWebAssemblyTrapHandler_calls (PlatformInit compiled_in block_entered flags v8) =
     EnableWebAssemblyTrapHandler_calls v8 @
       (if compiled_in \<and> block_entered \<and> \<not> bit flags 15 then [False] else [])
   \<and> (PlatformInit compiled_in block_entered flags v8 \<noteq> v8) =
       (compiled_in \<and> block_entered \<and> \<not> bit flags 15)
   \<and> (bit flags 15 \<longrightarrow> PlatformInit compiled_in block_entered flags v8 = v8)
   \<and> (EnableWebAssemblyTrapHandler_calls v8 = [by_embedder] \<longrightarrow>
        hard_crash (PlatformInit compiled_in block_entered flags v8) =
          (compiled_in \<and> block_entered \<and> \<not> bit flags 15))"
proof -
  have run: "PlatformInit compiled_in block_entered flags v8 =
      (if compiled_in \<and> block_entered \<and> \<not> bit flags 15
       then EnableWebAssemblyTrapHandler False v8 else v8)"
    by (simp add: PlatformInit_def kNoEnableWasmTrapHandler_test)
  have differs: "EnableWebAssemblyTrapHandler False v8 \<noteq> v8"
  proof
    assume "EnableWebAssemblyTrapHandler False v8 = v8"
    then have "EnableWebAssemblyTrapHandler_calls (EnableWebAssemblyTrapHandler False v8) =
        EnableWebAssemblyTrapHandler_calls v8"
      by simp
    then show False by (simp add: EnableWebAssemblyTrapHandler_def)
  qed
  have calls: "EnableWebAssemblyTrapHandler_calls
       (PlatformInit compiled_in block_entered flags v8) =
     EnableWebAssemblyTrapHandler_calls v8 @
       (if compiled_in \<and> block_entered \<and> \<not> bit flags 15 then [False] else [])"
    by (simp add: run EnableWebAssemblyTrapHandler_def)
  have invoked: "(PlatformInit compiled_in block_entered flags v8 \<noteq> v8) =
       (compiled_in \<and> block_entered \<and> \<not> bit flags 15)"
    using differs by (simp add: run)
  have suppressed: "bit flags 15 \<longrightarrow> PlatformInit compiled_in block_entered flags v8 = v8"
    by (simp add: run)
  have crash: "EnableWebAssemblyTrapHandler_calls v8 = [by_embedder] \<longrightarrow>
        hard_crash (PlatformInit compiled_in block_entered flags v8) =
          (compiled_in \<and> block_entered \<and> \<not> bit flags 15)"
    by (simp add: run hard_crash_def EnableWebAssemblyTrapHandler_def)
  from calls invoked suppressed crash show ?thesis by blast
qed

theorem C8_witness:
  "PlatformInit True True kNoEnableWasmTrapHandler
     \<lparr>EnableWebAssemblyTrapHandler_calls = [False]\<rparr>
   = \<lparr>EnableWebAssemblyTrapHandler_calls = [False]\<rparr>
   \<and> \<not> hard_crash
         (PlatformInit True True kNoEnableWasmTrapHandler
            \<lparr>EnableWebAssemblyTrapHandler_calls = [False]\<rparr>)
   \<and> EnableWebAssemblyTrapHandler_calls
       (PlatformInit True True (kNoInitializeCppgc OR kGeneratePredictableSnapshot)
          \<lparr>EnableWebAssemblyTrapHandler_calls = []\<rparr>)
     = [False]
   \<and> hard_crash
       (PlatformInit True True (kNoInitializeCppgc OR kGeneratePredictableSnapshot)
          \<lparr>EnableWebAssemblyTrapHandler_calls = [False]\<rparr>)"
  using
    C8_trap_handler_enabled_iff_reached_and_flag_clear
      [of True True kNoEnableWasmTrapHandler
          "\<lparr>EnableWebAssemblyTrapHandler_calls = [False]\<rparr>" False]
    C8_trap_handler_enabled_iff_reached_and_flag_clear
      [of True True "kNoInitializeCppgc OR kGeneratePredictableSnapshot"
          "\<lparr>EnableWebAssemblyTrapHandler_calls = []\<rparr>" False]
    C8_trap_handler_enabled_iff_reached_and_flag_clear
      [of True True "kNoInitializeCppgc OR kGeneratePredictableSnapshot"
          "\<lparr>EnableWebAssemblyTrapHandler_calls = [False]\<rparr>" False]
  by (simp add: kNoEnableWasmTrapHandler_def kNoInitializeCppgc_def
      kGeneratePredictableSnapshot_def hard_crash_def bit_simps)

section \<open>Properties of the accessibility page handlers\<close>

text \<open>
  C9. The patched handlers neither read nor write the profile: whatever the persisted
  preferences and the browser windows of the profile are, the request callback starts from
  the api type "blink" and reports an empty browsers list, the web contents tree is dumped
  with the \<open>kBlink\<close> api type, and each handler (also \<open>SetGlobalString\<close>, for the
  api-type string and for any other) leaves the profile as it found it.
\<close>

theorem C9_accessibility_handlers_ignore_profile:
  "snd (fst (HandleAccessibilityRequestCallback views_enabled page_list profile)) = ''blink''
   \<and> fst (fst (HandleAccessibilityRequestCallback views_enabled page_list profile))
         kBrowsersField = Some (List [])
   \<and> fst (HandleAccessibilityRequestCallback views_enabled page_list profile) =
       fst (HandleAccessibilityRequestCallback views_enabled page_list profile')
   \<and> snd (HandleAccessibilityRequestCallback views_enabled page_list profile) = profile
   \<and> SetGlobalString string_name value profile = profile
   \<and> RequestWebContentsTree dump property_filters result profile =
       ((result(kTreeField \<mapsto> String (dump kBlink property_filters)), kBlink), profile)"
  by (simp add: HandleAccessibilityRequestCallback_def SetGlobalString_def
      RequestWebContentsTree_def Let_def)

theorem C9_witness:
  "fst (fst (HandleAccessibilityRequestCallback True []
               \<lparr>prefs = [''accessibility.shown_api_type'' \<mapsto> ''uia''],
                BrowserList = [\<lparr>session_id = 1\<rparr>, \<lparr>session_id = 2\<rparr>]\<rparr>))
     kBrowsersField = Some (List [])
   \<and> snd (fst (HandleAccessibilityRequestCallback True []
               \<lparr>prefs = [''accessibility.shown_api_type'' \<mapsto> ''uia''],
                BrowserList = [\<lparr>session_id = 1\<rparr>, \<lparr>session_id = 2\<rparr>]\<rparr>))
     = ''blink''
   \<and> SetGlobalString kApiTypeField ''uia''
       \<lparr>prefs = [''accessibility.shown_api_type'' \<mapsto> ''uia''],
        BrowserList = [\<lparr>session_id = 1\<rparr>, \<lparr>session_id = 2\<rparr>]\<rparr>
     = \<lparr>prefs = [''accessibility.shown_api_type'' \<mapsto> ''uia''],
        BrowserList = [\<lparr>session_id = 1\<rparr>, \<lparr>session_id = 2\<rparr>]\<rparr>
   \<and> snd (fst (RequestWebContentsTree
                 (\<lambda>api_type filters. if api_type = kBlink then ''blink tree'' else ''other'')
                 () Map.empty
                 \<lparr>prefs = [''accessibility.shown_api_type'' \<mapsto> ''uia''],
                  BrowserList = [\<lparr>session_id = 1\<rparr>, \<lparr>session_id = 2\<rparr>]\<rparr>))
     = kBlink"
  using
    C9_accessibility_handlers_ignore_profile
      [of True "[]"
          "\<lparr>prefs = [''accessibility.shown_api_type'' \<mapsto> ''uia''],
            BrowserList = [\<lparr>session_id = 1\<rparr>, \<lparr>session_id = 2\<rparr>]\<rparr>"
          "\<lparr>prefs = Map.empty, BrowserList = []\<rparr>"
          kApiTypeField "''uia''"
          "\<lambda>api_type filters. if api_type = kBlink then ''blink tree'' else ''other''"
          "()" Map.empty]
  by (simp add: HandleAccessibilityRequestCallback_def SetGlobalString_def
      RequestWebContentsTree_def)

end
